theory Spec2Isabelle
  imports Main "HOL-Library.AList"
begin

section \<open>The battle-royale standalone extension\<close>

text \<open>
  A shallow embedding of \<^verbatim>\<open>src/extensions/battleroyale/standalone.mjs\<close>. The class
  \<^verbatim>\<open>Standalone\<close> keeps its data in fields of \<^verbatim>\<open>this\<close> and reacts to four kinds of
  events: the client call \<^verbatim>\<open>c2s_attack\<close>, the \<^verbatim>\<open>updateBullet\<close> interval of each bullet,
  the \<^verbatim>\<open>updateMap\<close> interval, and the player-update listener. Each handler is a function
  from the state before to an outcome and the state after. Every handler is modelled as
  running to completion: the promises of the helper that it awaits are taken to resolve
  without another handler running in between, and without rejecting.
\<close>

subsection \<open>JavaScript values\<close>

text \<open>
  Numbers are integers (cell coordinates, sizes and counters), together with the two
  values that arithmetic on an absent property produces. \<^verbatim>\<open>undefined\<close> in an arithmetic
  position becomes \<^verbatim>\<open>NaN\<close>, every operation on \<^verbatim>\<open>NaN\<close> yields \<^verbatim>\<open>NaN\<close>, and every
  comparison with it is false, also \<^verbatim>\<open>NaN === NaN\<close>.
\<close>

datatype jsnum = Undefined | NaN | Num int

fun js_add :: "jsnum \<Rightarrow> jsnum \<Rightarrow> jsnum" where
  "js_add (Num a) (Num b) = Num (a + b)"
| "js_add _ _ = NaN"

fun js_sub :: "jsnum \<Rightarrow> jsnum \<Rightarrow> jsnum" where
  "js_sub (Num a) (Num b) = Num (a - b)"
| "js_sub _ _ = NaN"

text \<open>\<^verbatim>\<open>Math.floor(v/2)\<close>: on integers the floor of the half is \<open>div\<close>, which rounds down.\<close>

fun js_floor_half :: "jsnum \<Rightarrow> jsnum" where
  "js_floor_half (Num a) = Num (a div 2)"
| "js_floor_half _ = NaN"

fun js_min :: "jsnum \<Rightarrow> jsnum \<Rightarrow> jsnum" where
  "js_min (Num a) (Num b) = Num (min a b)"
| "js_min _ _ = NaN"

fun js_lt :: "jsnum \<Rightarrow> jsnum \<Rightarrow> bool" where
  "js_lt (Num a) (Num b) = (a < b)"
| "js_lt _ _ = False"

fun js_strict_eq :: "jsnum \<Rightarrow> jsnum \<Rightarrow> bool" where
  "js_strict_eq (Num a) (Num b) = (a = b)"
| "js_strict_eq Undefined Undefined = True"
| "js_strict_eq _ _ = False"

text \<open>The operator \<^verbatim>\<open>??\<close>: the right operand replaces an absent left one.\<close>

fun nullish :: "jsnum \<Rightarrow> jsnum \<Rightarrow> jsnum" where
  "nullish Undefined d = d"
| "nullish v d = v"

text \<open>
  What a handler hands back. \<^verbatim>\<open>c2s_attack\<close> and \<^verbatim>\<open>onPlayerUpdate\<close> are \<^verbatim>\<open>async\<close>: for
  them \<open>Returned v\<close> is a promise fulfilled with \<open>v\<close> and \<open>Threw e\<close> a promise rejected
  with \<open>e\<close>. A bare \<^verbatim>\<open>return;\<close> yields \<^verbatim>\<open>undefined\<close>, which is not the boolean
  \<^verbatim>\<open>false\<close>.
\<close>

datatype retval = RUndefined | RBool bool

datatype error = TypeError

datatype outcome = Returned retval | Threw error

subsection \<open>Data\<close>

record mapCoord =
  mapName :: string
  mc_x :: int
  mc_y :: int

text \<open>
  An arena cell of the map configuration. \<^verbatim>\<open>insideMap\<close> reads \<^verbatim>\<open>cell.w ?? 1\<close>, so the
  width and the height may be absent.
\<close>

record cell =
  cell_x :: int
  cell_y :: int
  cell_w :: jsnum
  cell_h :: jsnum

record cellSet =
  cells :: "cell list"

text \<open>An object added to \<^verbatim>\<open>this.fires\<close>.\<close>

record fireCell =
  fire_x :: jsnum
  fire_y :: jsnum
  fire_w :: jsnum
  fire_h :: jsnum

text \<open>
  The facing of a bullet is one of the four own keys of the table \<^verbatim>\<open>Facing2Direction\<close>;
  other strings are outside this model.
\<close>

datatype facing = U | D | R | L

fun Facing2Direction :: "facing \<Rightarrow> int \<times> int" where
  "Facing2Direction U = (0, 1)"
| "Facing2Direction D = (0, -1)"
| "Facing2Direction R = (1, 0)"
| "Facing2Direction L = (-1, 0)"

definition BULLET_LIFE :: nat where
  "BULLET_LIFE = 5"

record bullet =
  facing :: facing
  bulletCoord :: mapCoord
  duration :: nat

text \<open>
  A player of the game state. The player store is taken to give every tracked player a
  map coordinate.
\<close>

record player =
  playerID :: string
  player_mapCoord :: mapCoord

text \<open>
  The layer names come from \<^verbatim>\<open>./common/client.mjs\<close>, which is not part of the sources
  at hand; only their identity matters.
\<close>

datatype layer = LAYER_BULLET | LAYER_OBSTACLE | LAYER_FIRE

text \<open>
  The two fields of a player-update message are arbitrary values: the identifier is a
  string or something else, the coordinate is absent, a string, or a coordinate object.
\<close>

datatype coordval = CoordUndefined | CoordString string | CoordObj mapCoord

datatype idval = IdString string | IdOther

record msg =
  msg_mapCoord :: coordval
  msg_playerID :: idval

text \<open>
  The calls that leave the extension, in the order they are made:
  \<^verbatim>\<open>helper.broadcastCellSetUpdateToAllUser(op, mapName, cellSet)\<close> with the layer and the
  cells of the cell set, \<^verbatim>\<open>helper.gameMap.getCell(coord, layer)\<close>,
  \<^verbatim>\<open>helper.teleport(playerID, target, true)\<close>, \<^verbatim>\<open>console.warn\<close>, and a promise rejection
  that nothing handles.
\<close>

datatype cellsArg = BulletCells "mapCoord list" | FireCells "fireCell list"

datatype action =
    Broadcast string string layer cellsArg
  | GetCell coordval layer
  | Teleport string mapCoord bool
  | Warn
  | UnhandledRejection error

text \<open>
  What \<^verbatim>\<open>initialize\<close> fixes: the arena cell sets of every map, a JavaScript \<^verbatim>\<open>Map\<close> in
  insertion order, and the constant \<^verbatim>\<open>BULLET_COOLDOWN\<close> of \<^verbatim>\<open>./common/client.mjs\<close>
  (milliseconds).
\<close>

record config =
  arenaOfMaps :: "(string \<times> cellSet list) list"
  BULLET_COOLDOWN :: nat

text \<open>
  What the collaborators answer while a handler runs: the players of the game state, a
  \<^verbatim>\<open>Map\<close> from identifiers to players in insertion order, and whether \<^verbatim>\<open>getCell\<close> gives
  a truthy value.
\<close>

record world =
  getPlayers :: "(string \<times> player) list"
  getCell :: "coordval \<Rightarrow> layer \<Rightarrow> bool"

text \<open>
  The fields of \<^verbatim>\<open>this\<close> and the timers. \<open>bullets\<close> is the \<^verbatim>\<open>Map\<close> of bullets in
  insertion order: \<open>map_of\<close> is \<^verbatim>\<open>get\<close>, \<open>AList.update\<close> is \<^verbatim>\<open>set\<close> (a present key keeps
  its place, a new one goes to the end) and \<open>AList.delete\<close> is \<^verbatim>\<open>delete\<close>. \<open>fires\<close> is
  the \<^verbatim>\<open>Set\<close> of fire objects; every \<^verbatim>\<open>add\<close> inserts a fresh object, so it is a list.
  \<open>timeouts\<close> holds the pending \<^verbatim>\<open>setTimeout\<close> callbacks of the cooldown with the time
  they are due, \<open>bulletIntervals\<close> the running \<^verbatim>\<open>updateBullet\<close> intervals with the bullet
  identifier and the map name their closure holds, \<open>updateMapInterval\<close> tells whether the
  \<^verbatim>\<open>updateMap\<close> interval still runs, \<open>now\<close> is the clock in milliseconds.
\<close>

record state =
  bullets :: "(nat \<times> bullet) list"
  bulletID :: nat
  fires :: "fireCell list"
  cooldown :: "string set"
  fireCounter :: int
  now :: nat
  timeouts :: "(nat \<times> string) list"
  bulletIntervals :: "(nat \<times> string) list"
  updateMapInterval :: bool
  trace :: "action list"

definition emit :: "action \<Rightarrow> state \<Rightarrow> state" where
  "emit a s = s\<lparr>trace := trace s @ [a]\<rparr>"

definition bulletCells :: "(nat \<times> bullet) list \<Rightarrow> cellsArg" where
  "bulletCells bs = BulletCells (map (\<lambda>(k, v). bulletCoord v) bs)"

subsection \<open>initialize\<close>

text \<open>
  The state after \<^verbatim>\<open>initialize\<close> at clock \<open>t\<close>: empty registries, the two \<^verbatim>\<open>set\<close>
  broadcasts of every map (both with the empty array of bullets), and the \<^verbatim>\<open>updateMap\<close>
  interval running.
\<close>

definition initialize :: "config \<Rightarrow> nat \<Rightarrow> state" where
  "initialize cfg t =
     \<lparr>bullets = [], bulletID = 0, fires = [], cooldown = {}, fireCounter = 0, now = t,
      timeouts = [], bulletIntervals = [], updateMapInterval = True,
      trace = concat (map (\<lambda>(mn, css).
                [Broadcast ''set'' mn LAYER_BULLET (BulletCells []),
                 Broadcast ''set'' mn LAYER_FIRE (BulletCells [])]) (arenaOfMaps cfg))\<rparr>"

subsection \<open>insideMap\<close>

definition cell_contains :: "cell \<Rightarrow> mapCoord \<Rightarrow> bool" where
  "cell_contains c p =
     (let width = nullish (cell_w c) (Num 1);
          height = nullish (cell_h c) (Num 1)
      in cell_x c \<le> mc_x p \<and> js_lt (Num (mc_x p)) (js_add (Num (cell_x c)) width) \<and>
         cell_y c \<le> mc_y p \<and> js_lt (Num (mc_y p)) (js_add (Num (cell_y c)) height))"

text \<open>
  \<^verbatim>\<open>this.arenaOfMaps.get(cellCoord.mapName)\<close> is \<^verbatim>\<open>undefined\<close> for a map that is not a
  key, and iterating over it throws a TypeError.
\<close>

definition insideMap :: "config \<Rightarrow> mapCoord \<Rightarrow> error + bool" where
  "insideMap cfg p =
     (case map_of (arenaOfMaps cfg) (mapName p) of
        None \<Rightarrow> Inl TypeError
      | Some css \<Rightarrow> Inr (list_ex (\<lambda>cs. list_ex (\<lambda>c. cell_contains c p) (cells cs)) css))"

subsection \<open>c2s\_attack\<close>

definition move :: "facing \<Rightarrow> mapCoord \<Rightarrow> mapCoord" where
  "move f p = p\<lparr>mc_x := mc_x p + fst (Facing2Direction f),
                mc_y := mc_y p + snd (Facing2Direction f)\<rparr>"

definition c2s_attack :: "config \<Rightarrow> player \<Rightarrow> mapCoord \<Rightarrow> facing \<Rightarrow> state \<Rightarrow> outcome \<times> state" where
  "c2s_attack cfg pl mc f s =
     (case insideMap cfg mc of
        Inl e \<Rightarrow> (Threw e, s)
      | Inr inside \<Rightarrow>
          if \<not> inside then (Returned RUndefined, s)
          else if playerID pl \<in> cooldown s then (Returned RUndefined, s)
          else
            let bid = bulletID s;
                bs = AList.update bid \<lparr>facing = f, bulletCoord = move f mc, duration = 0\<rparr>
                       (bullets s)
            in (Returned (RBool True),
                s\<lparr>cooldown := insert (playerID pl) (cooldown s),
                  timeouts := timeouts s @ [(now s + BULLET_COOLDOWN cfg, playerID pl)],
                  bulletID := bid + 1,
                  bullets := bs,
                  trace := trace s @ [Broadcast ''update'' (mapName mc) LAYER_BULLET (bulletCells bs)],
                  bulletIntervals := bulletIntervals s @ [(bid, mapName mc)]\<rparr>))"

text \<open>
  The clock reaches \<open>t\<close>: every cooldown timeout that is due by then runs its callback
  \<^verbatim>\<open>this.cooldown.delete(player.playerID)\<close>. The intervals are separate events below;
  their callbacks neither read nor write the cooldown.
\<close>

definition advance_clock :: "nat \<Rightarrow> state \<Rightarrow> state" where
  "advance_clock t s =
     s\<lparr>now := max (now s) t,
       cooldown := cooldown s - set (map snd (filter (\<lambda>e. fst e \<le> t) (timeouts s))),
       timeouts := filter (\<lambda>e. t < fst e) (timeouts s)\<rparr>"

subsection \<open>teleport\<close>

definition teleport :: "mapCoord \<Rightarrow> string \<Rightarrow> state \<Rightarrow> state" where
  "teleport mc pid s = emit (Teleport pid (mc\<lparr>mc_x := 1, mc_y := 1\<rparr>) True) s"

text \<open>
  \<^verbatim>\<open>teleport\<close> called with the coordinate of a message: \<^verbatim>\<open>mapCoord.copy()\<close> throws a
  TypeError on \<^verbatim>\<open>undefined\<close> and on a string, which has no method \<^verbatim>\<open>copy\<close>.
\<close>

fun teleport_value :: "coordval \<Rightarrow> string \<Rightarrow> state \<Rightarrow> outcome \<times> state" where
  "teleport_value (CoordObj mc) pid s = (Returned RUndefined, teleport mc pid s)"
| "teleport_value _ pid s = (Threw TypeError, s)"

subsection \<open>The updateBullet interval\<close>

text \<open>
  The inner loop of the collision scan: the first bullet of the registry whose \<open>x\<close> is
  the player's \<open>x\<close>, while the player's \<open>y\<close> is compared with \<open>cy\<close>, the \<open>y\<close> of the
  variable \<^verbatim>\<open>bulletCoord\<close> of the enclosing \<^verbatim>\<open>c2s_attack\<close>. That variable is the very
  object stored in the registry for the bullet of this interval, so \<open>cy\<close> is the \<open>y\<close> of
  the ticking bullet after its move. The map names are not compared.
\<close>

fun find_hit :: "int \<Rightarrow> player \<Rightarrow> (nat \<times> bullet) list \<Rightarrow> nat option" where
  "find_hit cy pl [] = None"
| "find_hit cy pl ((k, b) # bs) =
     (if mc_x (player_mapCoord pl) = mc_x (bulletCoord b) \<and> mc_y (player_mapCoord pl) = cy
      then Some k else find_hit cy pl bs)"

definition clearInterval_bullet :: "nat \<Rightarrow> state \<Rightarrow> state" where
  "clearInterval_bullet tid s = s\<lparr>bulletIntervals := filter (\<lambda>e. fst e \<noteq> tid) (bulletIntervals s)\<rparr>"

text \<open>
  The body of \<^verbatim>\<open>players.forEach\<close> for one player: on a hit the player is teleported,
  the interval of the ticking bullet \<open>tid\<close> is cleared, and the bullet that was hit is
  deleted.
\<close>

definition scan_player :: "nat \<Rightarrow> int \<Rightarrow> state \<Rightarrow> string \<times> player \<Rightarrow> state" where
  "scan_player tid cy s e =
     (case find_hit cy (snd e) (bullets s) of
        None \<Rightarrow> s
      | Some k \<Rightarrow>
          (let s1 = teleport (player_mapCoord (snd e)) (fst e) s;
               s2 = clearInterval_bullet tid s1
           in s2\<lparr>bullets := AList.delete k (bullets s2)\<rparr>))"

definition remove_bullet :: "nat \<Rightarrow> string \<Rightarrow> state \<Rightarrow> state" where
  "remove_bullet tid mn s =
     (let s1 = clearInterval_bullet tid s;
          s2 = s1\<lparr>bullets := AList.delete tid (bullets s1)\<rparr>
      in emit (Broadcast ''update'' mn LAYER_BULLET (bulletCells (bullets s2))) s2)"

definition advance :: "bullet \<Rightarrow> bullet" where
  "advance b = b\<lparr>bulletCoord := move (facing b) (bulletCoord b), duration := duration b + 1\<rparr>"

text \<open>
  The callback of the interval of bullet \<open>tid\<close>, whose closure holds the map name \<open>mn\<close>
  of the attack. The three conditions of the \<^verbatim>\<open>if\<close> are joined by \<^verbatim>\<open>||\<close>: a later one is
  evaluated only when the earlier ones are false.
\<close>

definition updateBullet :: "config \<Rightarrow> world \<Rightarrow> nat \<Rightarrow> string \<Rightarrow> state \<Rightarrow> outcome \<times> state" where
  "updateBullet cfg w tid mn s =
     (case map_of (bullets s) tid of
        None \<Rightarrow> (Threw TypeError, s)
      | Some b \<Rightarrow>
          let b' = advance b;
              s1 = s\<lparr>bullets := AList.update tid b' (bullets s)\<rparr>
          in if BULLET_LIFE \<le> duration b' then (Returned RUndefined, remove_bullet tid mn s1)
             else
               (case insideMap cfg (bulletCoord b') of
                  Inl e \<Rightarrow> (Threw e, s1)
                | Inr inside \<Rightarrow>
                    if \<not> inside then (Returned RUndefined, remove_bullet tid mn s1)
                    else
                      let s2 = emit (GetCell (CoordObj (bulletCoord b')) LAYER_OBSTACLE) s1
                      in if getCell w (CoordObj (bulletCoord b')) LAYER_OBSTACLE
                         then (Returned RUndefined, remove_bullet tid mn s2)
                         else
                           let s3 = foldl (scan_player tid (mc_y (bulletCoord b'))) s2 (getPlayers w)
                           in (Returned RUndefined,
                               emit (Broadcast ''update'' mn LAYER_BULLET (bulletCells (bullets s3))) s3)))"

subsection \<open>updateEdge and the updateMap interval\<close>

text \<open>The four \<^verbatim>\<open>fires.add\<close> of one arena cell, in the order of the source.\<close>

definition edge_strips :: "int \<Rightarrow> cell \<Rightarrow> fireCell list" where
  "edge_strips k c =
     (let wbound = js_min (Num k) (js_floor_half (cell_w c));
          hbound = js_min (Num k) (js_floor_half (cell_h c))
      in [\<lparr>fire_x = Num (cell_x c), fire_y = Num (cell_y c), fire_w = cell_w c, fire_h = hbound\<rparr>,
          \<lparr>fire_x = Num (cell_x c), fire_y = js_sub (js_add (Num (cell_y c)) (cell_h c)) hbound,
           fire_w = cell_w c, fire_h = hbound\<rparr>,
          \<lparr>fire_x = Num (cell_x c), fire_y = Num (cell_y c), fire_w = wbound, fire_h = cell_h c\<rparr>,
          \<lparr>fire_x = js_sub (js_add (Num (cell_x c)) (cell_w c)) wbound, fire_y = Num (cell_y c),
           fire_w = wbound, fire_h = cell_h c\<rparr>])"

definition cell_consumed :: "int \<Rightarrow> cell \<Rightarrow> bool" where
  "cell_consumed k c =
     (js_strict_eq (js_min (Num k) (js_floor_half (cell_w c))) (js_floor_half (cell_w c)) \<and>
      js_strict_eq (js_min (Num k) (js_floor_half (cell_h c))) (js_floor_half (cell_h c)))"

text \<open>
  The body of the inner loop on the triple of \<^verbatim>\<open>fires\<close>, \<^verbatim>\<open>noUpdateCounter\<close> and
  \<^verbatim>\<open>totalCell\<close>.
\<close>

definition edge_cell :: "int \<Rightarrow> fireCell list \<times> nat \<times> nat \<Rightarrow> cell \<Rightarrow> fireCell list \<times> nat \<times> nat" where
  "edge_cell k acc c =
     (case acc of (fs, noUpdateCounter, totalCell) \<Rightarrow>
        (fs @ edge_strips k c,
         if cell_consumed k c then noUpdateCounter + 1 else noUpdateCounter,
         totalCell + 1))"

definition updateEdge :: "fireCell list \<Rightarrow> cellSet list \<Rightarrow> int \<Rightarrow> bool \<times> fireCell list" where
  "updateEdge fs cellSets k =
     (case foldl (\<lambda>acc cs. foldl (edge_cell k) acc (cells cs)) (fs, 0, 0) cellSets of
        (fs', noUpdateCounter, totalCell) \<Rightarrow> (noUpdateCounter \<noteq> totalCell, fs'))"

definition fire_player :: "world \<Rightarrow> state \<Rightarrow> string \<times> player \<Rightarrow> state" where
  "fire_player w s e =
     (let s1 = emit (GetCell (CoordObj (player_mapCoord (snd e))) LAYER_FIRE) s
      in if getCell w (CoordObj (player_mapCoord (snd e))) LAYER_FIRE
         then teleport (player_mapCoord (snd e)) (fst e) s1 else s1)"

text \<open>
  The loop over the maps in the callback of the \<^verbatim>\<open>updateMap\<close> interval. When
  \<^verbatim>\<open>updateEdge\<close> answers false for a map, the interval is cleared and the callback
  returns: no broadcast for this map, and the maps after it are not visited.
\<close>

fun updateMap_loop :: "world \<Rightarrow> (string \<times> cellSet list) list \<Rightarrow> state \<Rightarrow> state" where
  "updateMap_loop w [] s = s"
| "updateMap_loop w ((mn, css) # rest) s =
     (case updateEdge (fires s) css (fireCounter s) of
        (needUpdate, fs) \<Rightarrow>
          let s1 = s\<lparr>fires := fs\<rparr>
          in if \<not> needUpdate then s1\<lparr>updateMapInterval := False\<rparr>
             else
               let s2 = emit (Broadcast ''update'' mn LAYER_FIRE (FireCells fs)) s1;
                   s3 = foldl (fire_player w) s2 (getPlayers w)
               in updateMap_loop w rest s3)"

definition updateMap :: "config \<Rightarrow> world \<Rightarrow> state \<Rightarrow> state" where
  "updateMap cfg w s =
     updateMap_loop w (arenaOfMaps cfg) (s\<lparr>fireCounter := fireCounter s + 1, fires := []\<rparr>)"

text \<open>The timer of the interval: a cleared interval runs its callback no more.\<close>

definition updateMap_timer :: "config \<Rightarrow> world \<Rightarrow> state \<Rightarrow> state" where
  "updateMap_timer cfg w s = (if updateMapInterval s then updateMap cfg w s else s)"

subsection \<open>onPlayerUpdate\<close>

text \<open>
  The second test of the source compares the coordinate with the string
  \<^verbatim>\<open>'undefined'\<close>.
\<close>

definition onPlayerUpdate :: "world \<Rightarrow> msg \<Rightarrow> state \<Rightarrow> outcome \<times> state" where
  "onPlayerUpdate w m s =
     (case msg_playerID m of
        IdOther \<Rightarrow> (Returned RUndefined, emit Warn s)
      | IdString pid \<Rightarrow>
          if msg_mapCoord m = CoordString ''undefined'' then (Returned RUndefined, s)
          else
            let s1 = emit (GetCell (msg_mapCoord m) LAYER_BULLET) s
            in if getCell w (msg_mapCoord m) LAYER_BULLET then teleport_value (msg_mapCoord m) pid s1
               else
                 let s2 = emit (GetCell (msg_mapCoord m) LAYER_FIRE) s1
                 in if getCell w (msg_mapCoord m) LAYER_FIRE
                    then teleport_value (msg_mapCoord m) pid s2
                    else (Returned RUndefined, s2))"

text \<open>
  The listener registered by \<^verbatim>\<open>initialize\<close>. \<^verbatim>\<open>onPlayerUpdate\<close> is \<^verbatim>\<open>async\<close> and is
  called without \<^verbatim>\<open>await\<close>, so the \<^verbatim>\<open>try\<close> never sees an exception: a fault inside
  becomes a rejected promise that nothing handles.
\<close>

definition playerUpdateListener :: "world \<Rightarrow> msg \<Rightarrow> state \<Rightarrow> state" where
  "playerUpdateListener w m s =
     (case onPlayerUpdate w m s of
        (Returned v, s') \<Rightarrow> s'
      | (Threw e, s') \<Rightarrow> emit (UnhandledRejection e) s')"

subsection \<open>Reading a handler's result\<close>

text \<open>The calls made between a state and a later one.\<close>

abbreviation emitted :: "state \<Rightarrow> state \<Rightarrow> action list" where
  "emitted s s' \<equiv> drop (length (trace s)) (trace s')"

text \<open>
  The state after a tick that ends bullet \<open>tid\<close> without a collision scan: the bullet
  is deleted, its interval is cleared, and the only calls are the queries \<open>qs\<close> and the
  broadcast of the remaining bullets.
\<close>

abbreviation ended :: "nat \<Rightarrow> string \<Rightarrow> action list \<Rightarrow> state \<Rightarrow> state" where
  "ended tid mn qs s \<equiv>
     s\<lparr>bullets := AList.delete tid (bullets s),
       bulletIntervals := filter (\<lambda>e. fst e \<noteq> tid) (bulletIntervals s),
       trace := trace s @ qs @ [Broadcast ''update'' mn LAYER_BULLET (bulletCells (AList.delete tid (bullets s)))]\<rparr>"

subsection \<open>Example data\<close>

definition lobby :: "int \<Rightarrow> int \<Rightarrow> mapCoord" where
  "lobby a b = \<lparr>mapName = ''lobby'', mc_x = a, mc_y = b\<rparr>"

text \<open>One map with the arena rectangle \<open>(0, 0, 10, 10)\<close>.\<close>

definition example_config :: config where
  "example_config =
     \<lparr>arenaOfMaps = [(''lobby'', [\<lparr>cells = [\<lparr>cell_x = 0, cell_y = 0, cell_w = Num 10, cell_h = Num 10\<rparr>]\<rparr>])],
      BULLET_COOLDOWN = 1000\<rparr>"

text \<open>Two maps: a rectangle \<open>(0, 0, 2, 2)\<close> on the first, \<open>(0, 0, 10, 10)\<close> on the second.\<close>

definition two_maps_config :: config where
  "two_maps_config =
     \<lparr>arenaOfMaps = [(''small'', [\<lparr>cells = [\<lparr>cell_x = 0, cell_y = 0, cell_w = Num 2, cell_h = Num 2\<rparr>]\<rparr>]),
                     (''large'', [\<lparr>cells = [\<lparr>cell_x = 0, cell_y = 0, cell_w = Num 10, cell_h = Num 10\<rparr>]\<rparr>])],
      BULLET_COOLDOWN = 1000\<rparr>"

definition alice :: player where
  "alice = \<lparr>playerID = ''alice'', player_mapCoord = lobby 3 6\<rparr>"

definition bob :: player where
  "bob = \<lparr>playerID = ''bob'', player_mapCoord = lobby 3 6\<rparr>"

definition carol :: player where
  "carol = \<lparr>playerID = ''carol'', player_mapCoord = lobby 3 4\<rparr>"

definition quiet_world :: world where
  "quiet_world = \<lparr>getPlayers = [], getCell = (\<lambda>c l. False)\<rparr>"

definition crowd_world :: world where
  "crowd_world = \<lparr>getPlayers = [(''alice'', alice), (''bob'', bob), (''carol'', carol)],
                   getCell = (\<lambda>c l. False)\<rparr>"

definition walled_world :: world where
  "walled_world = \<lparr>getPlayers = [], getCell = (\<lambda>c l. l = LAYER_OBSTACLE)\<rparr>"

definition hot_world :: world where
  "hot_world = \<lparr>getPlayers = [], getCell = (\<lambda>c l. True)\<rparr>"

text \<open>The state after carol's first attack from the cell \<open>(3, b)\<close>, facing up.\<close>

definition shot :: "int \<Rightarrow> state" where
  "shot b = snd (c2s_attack example_config carol (lobby 3 b) U (initialize example_config 0))"

definition dave :: player where
  "dave = \<lparr>playerID = ''dave'', player_mapCoord = lobby 3 4\<rparr>"

definition solo_world :: world where
  "solo_world = \<lparr>getPlayers = [(''alice'', alice)], getCell = (\<lambda>c l. False)\<rparr>"

text \<open>Zoe stands on another map, at the same \<open>x\<close> and \<open>y\<close> as alice.\<close>

definition zoe :: player where
  "zoe = \<lparr>playerID = ''zoe'', player_mapCoord = \<lparr>mapName = ''cellar'', mc_x = 3, mc_y = 6\<rparr>\<rparr>"

definition mixed_world :: world where
  "mixed_world = \<lparr>getPlayers = [(''zoe'', zoe), (''alice'', alice)], getCell = (\<lambda>c l. False)\<rparr>"

text \<open>
  Two bullets in one column: carol's from the cell \<open>(3, 7)\<close>, then dave's from
  \<open>(3, 4)\<close>, both facing up.
\<close>

definition two_shots :: state where
  "two_shots = snd (c2s_attack example_config dave (lobby 3 4) U (shot 7))"

text \<open>The same registry with the bullet four ticks old, at the cell \<open>(3, 5)\<close>.\<close>

definition aged :: state where
  "aged = (shot 0)\<lparr>bullets := [(0, \<lparr>facing = U, bulletCoord = lobby 3 5, duration = 4\<rparr>)]\<rparr>"

section \<open>Properties\<close>

subsection \<open>Association lists as JavaScript maps\<close>

lemma map_of_delete_Some:
  "map_of (AList.delete k al) k' = Some v \<Longrightarrow> map_of al k' = Some v"
  by (simp add: delete_conv' split: if_splits)

lemma set_delete_subset: "set (AList.delete k al) \<subseteq> set al"
  by (auto simp: AList.delete_eq)

lemma set_update_subset: "set (AList.update k v al) \<subseteq> insert (k, v) (set al)"
  by (induction al) auto

subsection \<open>insideMap and the attack\<close>

lemma insideMap_False_iff:
  "insideMap cfg p = Inr False \<longleftrightarrow>
     (\<exists>css. map_of (arenaOfMaps cfg) (mapName p) = Some css \<and>
        (\<forall>cs \<in> set css. \<forall>c \<in> set (cells cs). \<not> cell_contains c p))"
  by (auto simp: insideMap_def list_ex_iff split: option.splits)

lemma c2s_attack_not_inside:
  "insideMap cfg mc = Inr False \<Longrightarrow> c2s_attack cfg pl mc f s = (Returned RUndefined, s)"
  by (simp add: c2s_attack_def)

lemma c2s_attack_unknown_map:
  "map_of (arenaOfMaps cfg) (mapName mc) = None \<Longrightarrow> c2s_attack cfg pl mc f s = (Threw TypeError, s)"
  by (simp add: c2s_attack_def insideMap_def)

lemma move_neq: "move f mc \<noteq> mc"
proof
  assume "move f mc = mc"
  then have "mc_x (move f mc) = mc_x mc \<and> mc_y (move f mc) = mc_y mc" by simp
  then show False by (cases f) (simp_all add: move_def)
qed

lemma shot_eq:
  "0 \<le> b \<Longrightarrow> b < 10 \<Longrightarrow> shot b =
    \<lparr>bullets = [(0, \<lparr>facing = U, bulletCoord = lobby 3 (b + 1), duration = 0\<rparr>)], bulletID = 1, fires = [],
     cooldown = {''carol''}, fireCounter = 0, now = 0, timeouts = [(1000, ''carol'')],
     bulletIntervals = [(0, ''lobby'')], updateMapInterval = True,
     trace = [Broadcast ''set'' ''lobby'' LAYER_BULLET (BulletCells []),
              Broadcast ''set'' ''lobby'' LAYER_FIRE (BulletCells []),
              Broadcast ''update'' ''lobby'' LAYER_BULLET (BulletCells [lobby 3 (b + 1)])]\<rparr>"
  by (simp add: shot_def c2s_attack_def insideMap_def example_config_def cell_contains_def lobby_def
      initialize_def carol_def move_def bulletCells_def Let_def)

lemma shot_ok:
  "c2s_attack example_config carol (lobby 3 4) U (initialize example_config 0) =
     (Returned (RBool True), shot 4)"
  by (simp add: shot_def c2s_attack_def insideMap_def example_config_def cell_contains_def lobby_def
      initialize_def carol_def Let_def)

text \<open>
  C6. Every successful attack at the origin cell \<open>C\<close> with facing \<open>D\<close> registers, under
  the identifier the counter had, a bullet of age 0 whose position is \<open>C\<close> moved by the
  displacement of \<open>D\<close>, which is never \<open>C\<close> itself; the displacements are up \<open>(0, 1)\<close>,
  down \<open>(0, -1)\<close>, right \<open>(1, 0)\<close> and left \<open>(-1, 0)\<close>.
\<close>

theorem c2s_attack_spawn:
  assumes "c2s_attack cfg pl mc f s = (Returned (RBool True), s')"
  shows "map_of (bullets s') (bulletID s) =
           Some \<lparr>facing = f,
                 bulletCoord = mc\<lparr>mc_x := mc_x mc + fst (Facing2Direction f),
                                  mc_y := mc_y mc + snd (Facing2Direction f)\<rparr>,
                 duration = 0\<rparr> \<and>
         mc\<lparr>mc_x := mc_x mc + fst (Facing2Direction f),
            mc_y := mc_y mc + snd (Facing2Direction f)\<rparr> \<noteq> mc \<and>
         Facing2Direction U = (0, 1) \<and> Facing2Direction D = (0, -1) \<and>
         Facing2Direction R = (1, 0) \<and> Facing2Direction L = (-1, 0)"
proof -
  from assms have "bullets s' = AList.update (bulletID s)
       \<lparr>facing = f, bulletCoord = move f mc, duration = 0\<rparr> (bullets s)"
    by (auto simp: c2s_attack_def Let_def split: sum.splits if_splits)
  then have "map_of (bullets s') (bulletID s) =
       Some \<lparr>facing = f, bulletCoord = move f mc, duration = 0\<rparr>"
    by (simp add: update_conv')
  moreover have "move f mc \<noteq> mc" by (rule move_neq)
  ultimately show ?thesis by (simp add: move_def)
qed

theorem c2s_attack_spawn_witness:
  "c2s_attack example_config carol (lobby 3 4) U (initialize example_config 0) =
     (Returned (RBool True), shot 4) \<and>
   map_of (bullets (shot 4)) (bulletID (initialize example_config 0)) =
     Some \<lparr>facing = U, bulletCoord = lobby 3 5, duration = 0\<rparr>"
  using c2s_attack_spawn[OF shot_ok] shot_ok by (simp add: lobby_def)

text \<open>
  C10. An attack whose origin lies outside every arena rectangle of its map leaves the
  whole state as it was: the cooldown set and its pending timeouts, the bullet registry,
  the bullet identifier counter and the bullet intervals.
\<close>

theorem c2s_attack_outside_frame:
  assumes "map_of (arenaOfMaps cfg) (mapName mc) = Some css"
    and "\<forall>cs \<in> set css. \<forall>c \<in> set (cells cs). \<not> cell_contains c mc"
    and "c2s_attack cfg pl mc f s = (out, s')"
  shows "cooldown s' = cooldown s \<and> timeouts s' = timeouts s \<and> bullets s' = bullets s \<and>
         bulletID s' = bulletID s \<and> bulletIntervals s' = bulletIntervals s \<and> s' = s"
proof -
  have "insideMap cfg mc = Inr False"
    using assms(1,2) insideMap_False_iff by blast
  then have "c2s_attack cfg pl mc f s = (Returned RUndefined, s)"
    by (rule c2s_attack_not_inside)
  with assms(3) show ?thesis by simp
qed

theorem c2s_attack_outside_frame_witness:
  "snd (c2s_attack example_config carol (lobby 20 20) U (shot 4)) = shot 4"
  using c2s_attack_outside_frame[of example_config "lobby 20 20"
      "[\<lparr>cells = [\<lparr>cell_x = 0, cell_y = 0, cell_w = Num 10, cell_h = Num 10\<rparr>]\<rparr>]" carol U "shot 4"
      "fst (c2s_attack example_config carol (lobby 20 20) U (shot 4))"
      "snd (c2s_attack example_config carol (lobby 20 20) U (shot 4))"]
  by (simp add: example_config_def lobby_def cell_contains_def)

text \<open>
  C7. At an attack whose origin \<open>(20, 20)\<close> lies outside the only arena rectangle
  \<open>(0, 0, 10, 10)\<close> of its map, the code creates no bullet and raises nothing, and the
  value it returns is \<^verbatim>\<open>undefined\<close>, not the boolean \<^verbatim>\<open>false\<close>.
\<close>

theorem c2s_attack_outside_undefined:
  "c2s_attack example_config carol (lobby 20 20) U (initialize example_config 0) =
     (Returned RUndefined, initialize example_config 0) \<and>
   Returned RUndefined \<noteq> Returned (RBool False)"
  by (simp add: c2s_attack_def insideMap_def example_config_def cell_contains_def lobby_def)

subsection \<open>The cooldown\<close>

lemma attack_permitted:
  assumes "c2s_attack cfg pl mc f s = (Returned (RBool True), s1)"
  shows "playerID pl \<notin> cooldown s \<and> cooldown s1 = insert (playerID pl) (cooldown s) \<and>
         timeouts s1 = timeouts s @ [(now s + BULLET_COOLDOWN cfg, playerID pl)]"
  using assms by (auto simp: c2s_attack_def Let_def split: sum.splits if_splits)

lemma attack_succeeds:
  assumes "insideMap cfg mc = Inr True" and "playerID pl \<notin> cooldown s"
  shows "fst (c2s_attack cfg pl mc f s) = Returned (RBool True)"
  using assms by (simp add: c2s_attack_def Let_def)

lemma attack_denied:
  assumes "playerID pl \<in> cooldown s"
  shows "fst (c2s_attack cfg pl mc f s) \<noteq> Returned (RBool True) \<and> snd (c2s_attack cfg pl mc f s) = s"
  using assms by (simp add: c2s_attack_def split: sum.splits)

text \<open>
  After a successful attack the player stays in the cooldown set until the clock reaches
  the time of the attack plus \<^verbatim>\<open>BULLET_COOLDOWN\<close>, and is out of it from then on.
\<close>

lemma cooldown_held:
  assumes "c2s_attack cfg pl mc f s = (Returned (RBool True), s1)"
    and "playerID pl \<notin> snd ` set (timeouts s)"
    and "t < now s + BULLET_COOLDOWN cfg"
  shows "playerID pl \<in> cooldown (advance_clock t s1)"
  using attack_permitted[OF assms(1)] assms(2,3) by (auto simp: advance_clock_def)

lemma cooldown_released:
  assumes "c2s_attack cfg pl mc f s = (Returned (RBool True), s1)"
    and "now s + BULLET_COOLDOWN cfg \<le> t"
  shows "playerID pl \<notin> cooldown (advance_clock t s1)"
  using attack_permitted[OF assms(1)] assms(2) by (force simp: advance_clock_def)

text \<open>
  C3. Carol attacks at clock 0 with a cooldown of 1000 ms and is permitted. Her second
  attack at clock 999 creates nothing and returns \<^verbatim>\<open>undefined\<close>, not the boolean
  \<^verbatim>\<open>false\<close>; at clock 1000 the cooldown entry has been released and her attack returns
  \<^verbatim>\<open>true\<close> again.
\<close>

theorem c2s_attack_cooldown_undefined:
  "c2s_attack example_config carol (lobby 3 4) U (initialize example_config 0) =
     (Returned (RBool True), shot 4) \<and>
   c2s_attack example_config carol (lobby 3 4) U (advance_clock 999 (shot 4)) =
     (Returned RUndefined, advance_clock 999 (shot 4)) \<and>
   Returned RUndefined \<noteq> Returned (RBool False) \<and>
   fst (c2s_attack example_config carol (lobby 3 4) U (advance_clock 1000 (shot 4))) =
     Returned (RBool True)"
proof -
  have "c2s_attack example_config carol (lobby 3 4) U (advance_clock 999 (shot 4)) =
     (Returned RUndefined, advance_clock 999 (shot 4))"
    by (simp add: shot_eq c2s_attack_def insideMap_def example_config_def cell_contains_def lobby_def
      carol_def advance_clock_def)
  moreover have "fst (c2s_attack example_config carol (lobby 3 4) U (advance_clock 1000 (shot 4))) =
      Returned (RBool True)"
    by (simp add: shot_eq c2s_attack_def insideMap_def example_config_def cell_contains_def lobby_def
      carol_def advance_clock_def Let_def)
  ultimately show ?thesis using shot_ok by simp
qed

subsection \<open>The bullet tick\<close>

lemma find_hit_Some:
  "find_hit cy pl bs = Some k \<Longrightarrow>
     \<exists>b. (k, b) \<in> set bs \<and> mc_x (player_mapCoord pl) = mc_x (bulletCoord b) \<and>
         mc_y (player_mapCoord pl) = cy"
  by (induction bs) (auto split: if_splits)

lemma find_hit_None:
  "find_hit cy pl bs = None \<Longrightarrow> (k, b) \<in> set bs \<Longrightarrow>
     \<not> (mc_x (player_mapCoord pl) = mc_x (bulletCoord b) \<and> mc_y (player_mapCoord pl) = cy)"
  by (induction bs) (auto split: if_splits)

lemma scan_player_bullets:
  "bullets (scan_player tid cy s e) =
     (case find_hit cy (snd e) (bullets s) of
        None \<Rightarrow> bullets s | Some k \<Rightarrow> AList.delete k (bullets s))"
  by (simp add: scan_player_def Let_def teleport_def emit_def clearInterval_bullet_def
      split: option.splits)

lemma scan_player_hit:
  assumes "find_hit cy (snd e) (bullets s) = Some k"
  shows "scan_player tid cy s e =
           s\<lparr>trace := trace s @ [Teleport (fst e) ((player_mapCoord (snd e))\<lparr>mc_x := 1, mc_y := 1\<rparr>) True],
             bulletIntervals := filter (\<lambda>e. fst e \<noteq> tid) (bulletIntervals s),
             bullets := AList.delete k (bullets s)\<rparr>"
  using assms by (simp add: scan_player_def Let_def teleport_def emit_def clearInterval_bullet_def)

text \<open>The scan only deletes bullets, only clears intervals and only adds calls.\<close>

lemma scan_player_keeps:
  "map_of (bullets (scan_player tid cy s e)) k = Some v \<Longrightarrow> map_of (bullets s) k = Some v"
  by (auto simp: scan_player_bullets split: option.splits dest: map_of_delete_Some)

lemma scan_players_keeps:
  "map_of (bullets (foldl (scan_player tid cy) s ps)) k = Some v \<Longrightarrow> map_of (bullets s) k = Some v"
  by (induction ps arbitrary: s) (auto dest: scan_player_keeps)

lemma scan_players_gone:
  "map_of (bullets s) k = None \<Longrightarrow> map_of (bullets (foldl (scan_player tid cy) s ps)) k = None"
  using scan_players_keeps[of tid cy s ps k]
  by (cases "map_of (bullets (foldl (scan_player tid cy) s ps)) k") auto

lemma scan_player_trace:
  "\<exists>ts. trace (scan_player tid cy s e) = trace s @ ts"
  by (simp add: scan_player_def Let_def teleport_def emit_def clearInterval_bullet_def
      split: option.splits)

lemma scan_players_trace:
  "\<exists>ts. trace (foldl (scan_player tid cy) s ps) = trace s @ ts"
proof (induction ps arbitrary: s)
  case Nil
  show ?case by simp
next
  case (Cons e ps)
  obtain t1 where t1: "trace (scan_player tid cy s e) = trace s @ t1"
    using scan_player_trace by blast
  obtain t2 where "trace (foldl (scan_player tid cy) (scan_player tid cy s e) ps) =
      trace (scan_player tid cy s e) @ t2"
    using Cons.IH by blast
  with t1 show ?case by simp
qed

lemma scan_player_intervals:
  "set (bulletIntervals (scan_player tid cy s e)) \<subseteq> set (bulletIntervals s)"
  by (auto simp: scan_player_def Let_def teleport_def emit_def clearInterval_bullet_def
      split: option.splits)

lemma scan_players_intervals:
  "set (bulletIntervals (foldl (scan_player tid cy) s ps)) \<subseteq> set (bulletIntervals s)"
proof (induction ps arbitrary: s)
  case Nil
  show ?case by simp
next
  case (Cons e ps)
  have "set (bulletIntervals (foldl (scan_player tid cy) (scan_player tid cy s e) ps))
          \<subseteq> set (bulletIntervals (scan_player tid cy s e))"
    by (rule Cons.IH)
  then show ?case using scan_player_intervals[of tid cy s e] by auto
qed

lemma remove_bullet_eq:
  "remove_bullet tid mn s =
     s\<lparr>bullets := AList.delete tid (bullets s),
       bulletIntervals := filter (\<lambda>e. fst e \<noteq> tid) (bulletIntervals s),
       trace := trace s @ [Broadcast ''update'' mn LAYER_BULLET (bulletCells (AList.delete tid (bullets s)))]\<rparr>"
  by (simp add: remove_bullet_def Let_def clearInterval_bullet_def emit_def)

text \<open>The four ways through the callback for a registered bullet.\<close>

lemma updateBullet_expired:
  assumes "map_of (bullets s) tid = Some b" and "BULLET_LIFE \<le> duration b + 1"
  shows "updateBullet cfg w tid mn s = (Returned RUndefined, ended tid mn [] s)"
  using assms
  by (simp add: updateBullet_def Let_def advance_def remove_bullet_eq delete_update_same)

lemma updateBullet_outside:
  assumes "map_of (bullets s) tid = Some b" and "duration b + 1 < BULLET_LIFE"
    and "insideMap cfg (move (facing b) (bulletCoord b)) = Inr False"
  shows "updateBullet cfg w tid mn s = (Returned RUndefined, ended tid mn [] s)"
  using assms
  by (simp add: updateBullet_def Let_def advance_def remove_bullet_eq delete_update_same)

lemma updateBullet_obstacle:
  assumes "map_of (bullets s) tid = Some b" and "duration b + 1 < BULLET_LIFE"
    and "insideMap cfg (move (facing b) (bulletCoord b)) = Inr True"
    and "getCell w (CoordObj (move (facing b) (bulletCoord b))) LAYER_OBSTACLE"
  shows "updateBullet cfg w tid mn s =
    (Returned RUndefined,
     ended tid mn [GetCell (CoordObj (move (facing b) (bulletCoord b))) LAYER_OBSTACLE] s)"
  using assms
  by (simp add: updateBullet_def Let_def advance_def remove_bullet_eq delete_update_same emit_def)

lemma updateBullet_scan:
  assumes "map_of (bullets s) tid = Some b" and "duration b + 1 < BULLET_LIFE"
    and "insideMap cfg (bulletCoord (advance b)) = Inr True"
    and "\<not> getCell w (CoordObj (bulletCoord (advance b))) LAYER_OBSTACLE"
  shows "updateBullet cfg w tid mn s =
    (Returned RUndefined,
     (let s3 = foldl (scan_player tid (mc_y (bulletCoord (advance b))))
                 (emit (GetCell (CoordObj (bulletCoord (advance b))) LAYER_OBSTACLE)
                    (s\<lparr>bullets := AList.update tid (advance b) (bullets s)\<rparr>)) (getPlayers w)
      in emit (Broadcast ''update'' mn LAYER_BULLET (bulletCells (bullets s3))) s3))"
  using assms by (simp add: updateBullet_def Let_def advance_def)

lemma updateBullet_cases:
  assumes "map_of (bullets s) tid = Some b" and "updateBullet cfg w tid mn s = (out, s')"
  shows "bullets s' = AList.delete tid (bullets s) \<or>
         s' = s\<lparr>bullets := AList.update tid (advance b) (bullets s)\<rparr> \<or>
         (\<exists>s2 a. bullets s2 = AList.update tid (advance b) (bullets s) \<and>
            s' = emit a (foldl (scan_player tid (mc_y (bulletCoord (advance b)))) s2 (getPlayers w)))"
proof (cases "BULLET_LIFE \<le> duration b + 1")
  case True
  then show ?thesis using assms updateBullet_expired[of s tid b cfg w mn] by auto
next
  case young: False
  show ?thesis
  proof (cases "insideMap cfg (bulletCoord (advance b))")
    case (Inl e)
    then show ?thesis using assms young
      by (simp add: updateBullet_def Let_def advance_def)
  next
    case (Inr inside)
    show ?thesis
    proof (cases inside)
      case False
      then show ?thesis
        using assms young Inr updateBullet_outside[of s tid b cfg w mn]
        by (auto simp: advance_def)
    next
      case True
      show ?thesis
      proof (cases "getCell w (CoordObj (bulletCoord (advance b))) LAYER_OBSTACLE")
        case hit: True
        then show ?thesis
          using assms young Inr True updateBullet_obstacle[of s tid b cfg w mn]
          by (auto simp: advance_def)
      next
        case False
        then have "s' = (let s3 = foldl (scan_player tid (mc_y (bulletCoord (advance b))))
                 (emit (GetCell (CoordObj (bulletCoord (advance b))) LAYER_OBSTACLE)
                    (s\<lparr>bullets := AList.update tid (advance b) (bullets s)\<rparr>)) (getPlayers w)
            in emit (Broadcast ''update'' mn LAYER_BULLET (bulletCells (bullets s3))) s3)"
          using assms young Inr True updateBullet_scan[of s tid b cfg w mn] by auto
        moreover have "bullets (emit (GetCell (CoordObj (bulletCoord (advance b))) LAYER_OBSTACLE)
                    (s\<lparr>bullets := AList.update tid (advance b) (bullets s)\<rparr>)) =
                 AList.update tid (advance b) (bullets s)"
          by (simp add: emit_def)
        ultimately show ?thesis unfolding Let_def by blast
      qed
    qed
  qed
qed

lemma updateBullet_keeps:
  assumes "map_of (bullets s) tid = Some b" and "updateBullet cfg w tid mn s = (out, s')"
    and "map_of (bullets s') tid = Some b'"
  shows "b' = advance b"
proof -
  consider (a) "bullets s' = AList.delete tid (bullets s)"
    | (b) "s' = s\<lparr>bullets := AList.update tid (advance b) (bullets s)\<rparr>"
    | (c) s2 a where "bullets s2 = AList.update tid (advance b) (bullets s)"
        "s' = emit a (foldl (scan_player tid (mc_y (bulletCoord (advance b)))) s2 (getPlayers w))"
    using updateBullet_cases[OF assms(1,2)] by blast
  then show ?thesis
  proof cases
    case a
    then show ?thesis using assms(3) by (simp add: delete_conv')
  next
    case b
    then show ?thesis using assms(3) by (simp add: update_conv')
  next
    case c
    then have "map_of (bullets (foldl (scan_player tid (mc_y (bulletCoord (advance b)))) s2
                 (getPlayers w))) tid = Some b'"
      using assms(3) by (simp add: emit_def)
    then have "map_of (bullets s2) tid = Some b'" by (rule scan_players_keeps)
    with c(1) show ?thesis by (simp add: update_conv')
  qed
qed

text \<open>
  C5. On a tick of a registered bullet: if the bullet is still registered afterwards, its
  position has advanced by the displacement of its facing and its age has grown by
  exactly 1; when the new age reaches \<^verbatim>\<open>BULLET_LIFE\<close> the bullet is gone after this very
  tick. The conditions that end the bullet are tried in the order age, arena, obstacle:
  a reached lifetime ends it whatever the other two would give, a position outside the
  arena ends it without the obstacle being queried, and an obstacle ends it after that
  one query. In each of the three cases the bullet is deleted, its interval is cleared,
  and the only other call is the broadcast of the remaining bullets: no player is
  scanned and none is teleported.
\<close>

theorem updateBullet_tick:
  assumes "map_of (bullets s) tid = Some b"
    and "updateBullet cfg w tid mn s = (out, s')"
  shows "(\<forall>b'. map_of (bullets s') tid = Some b' \<longrightarrow>
            facing b' = facing b \<and> duration b' = duration b + 1 \<and>
            bulletCoord b' = (bulletCoord b)\<lparr>
              mc_x := mc_x (bulletCoord b) + fst (Facing2Direction (facing b)),
              mc_y := mc_y (bulletCoord b) + snd (Facing2Direction (facing b))\<rparr>) \<and>
         (BULLET_LIFE \<le> duration b + 1 \<longrightarrow> map_of (bullets s') tid = None) \<and>
         (BULLET_LIFE \<le> duration b + 1 \<longrightarrow>
            out = Returned RUndefined \<and> s' = ended tid mn [] s) \<and>
         (duration b + 1 < BULLET_LIFE \<and>
          insideMap cfg (move (facing b) (bulletCoord b)) = Inr False \<longrightarrow>
            out = Returned RUndefined \<and> s' = ended tid mn [] s) \<and>
         (duration b + 1 < BULLET_LIFE \<and>
          insideMap cfg (move (facing b) (bulletCoord b)) = Inr True \<and>
          getCell w (CoordObj (move (facing b) (bulletCoord b))) LAYER_OBSTACLE \<longrightarrow>
            out = Returned RUndefined \<and>
            s' = ended tid mn [GetCell (CoordObj (move (facing b) (bulletCoord b))) LAYER_OBSTACLE] s)"
proof -
  have keep: "\<forall>b'. map_of (bullets s') tid = Some b' \<longrightarrow>
            facing b' = facing b \<and> duration b' = duration b + 1 \<and>
            bulletCoord b' = (bulletCoord b)\<lparr>
              mc_x := mc_x (bulletCoord b) + fst (Facing2Direction (facing b)),
              mc_y := mc_y (bulletCoord b) + snd (Facing2Direction (facing b))\<rparr>"
  proof (intro allI impI)
    fix b' assume "map_of (bullets s') tid = Some b'"
    then have "b' = advance b" using assms updateBullet_keeps by blast
    then show "facing b' = facing b \<and> duration b' = duration b + 1 \<and>
            bulletCoord b' = (bulletCoord b)\<lparr>
              mc_x := mc_x (bulletCoord b) + fst (Facing2Direction (facing b)),
              mc_y := mc_y (bulletCoord b) + snd (Facing2Direction (facing b))\<rparr>"
      by (simp add: advance_def move_def)
  qed
  have expired: "BULLET_LIFE \<le> duration b + 1 \<longrightarrow>
      out = Returned RUndefined \<and> s' = ended tid mn [] s"
    using assms updateBullet_expired[of s tid b cfg w mn] by auto
  have gone: "BULLET_LIFE \<le> duration b + 1 \<longrightarrow> map_of (bullets s') tid = None"
    using expired by (auto simp: delete_conv')
  have outside: "duration b + 1 < BULLET_LIFE \<and>
          insideMap cfg (move (facing b) (bulletCoord b)) = Inr False \<longrightarrow>
            out = Returned RUndefined \<and> s' = ended tid mn [] s"
    using assms updateBullet_outside[of s tid b cfg w mn] by auto
  have obstacle: "duration b + 1 < BULLET_LIFE \<and>
          insideMap cfg (move (facing b) (bulletCoord b)) = Inr True \<and>
          getCell w (CoordObj (move (facing b) (bulletCoord b))) LAYER_OBSTACLE \<longrightarrow>
            out = Returned RUndefined \<and>
            s' = ended tid mn [GetCell (CoordObj (move (facing b) (bulletCoord b))) LAYER_OBSTACLE] s"
    using assms updateBullet_obstacle[of s tid b cfg w mn] by auto
  from keep gone expired outside obstacle show ?thesis by blast
qed

theorem updateBullet_tick_witness:
  "map_of (bullets (shot 4)) 0 = Some \<lparr>facing = U, bulletCoord = lobby 3 5, duration = 0\<rparr> \<and>
   map_of (bullets (snd (updateBullet example_config quiet_world 0 ''lobby'' (shot 4)))) 0 =
     Some \<lparr>facing = U, bulletCoord = lobby 3 6, duration = 1\<rparr> \<and>
   snd (updateBullet example_config quiet_world 0 ''lobby'' aged) = ended 0 ''lobby'' [] aged \<and>
   map_of (bullets (snd (updateBullet example_config quiet_world 0 ''lobby'' aged))) 0 = None \<and>
   snd (updateBullet example_config quiet_world 0 ''lobby'' (shot 8)) = ended 0 ''lobby'' [] (shot 8) \<and>
   snd (updateBullet example_config walled_world 0 ''lobby'' (shot 4)) =
     ended 0 ''lobby'' [GetCell (CoordObj (lobby 3 6)) LAYER_OBSTACLE] (shot 4)"
proof -
  have start: "map_of (bullets (shot 4)) 0 = Some \<lparr>facing = U, bulletCoord = lobby 3 5, duration = 0\<rparr>"
    by (simp add: shot_eq)
  have moved: "map_of (bullets (snd (updateBullet example_config quiet_world 0 ''lobby'' (shot 4)))) 0 =
     Some \<lparr>facing = U, bulletCoord = lobby 3 6, duration = 1\<rparr>"
    using updateBullet_tick[OF start, of example_config quiet_world "''lobby''"
        "fst (updateBullet example_config quiet_world 0 ''lobby'' (shot 4))"
        "snd (updateBullet example_config quiet_world 0 ''lobby'' (shot 4))"]
    by (simp add: shot_eq updateBullet_def advance_def move_def lobby_def BULLET_LIFE_def
        insideMap_def example_config_def cell_contains_def quiet_world_def emit_def bulletCells_def
        Let_def)
  have old: "map_of (bullets aged) 0 = Some \<lparr>facing = U, bulletCoord = lobby 3 5, duration = 4\<rparr>"
    by (simp add: aged_def)
  have expired: "snd (updateBullet example_config quiet_world 0 ''lobby'' aged) = ended 0 ''lobby'' [] aged \<and>
      map_of (bullets (snd (updateBullet example_config quiet_world 0 ''lobby'' aged))) 0 = None"
    using updateBullet_tick[OF old, of example_config quiet_world "''lobby''"
        "fst (updateBullet example_config quiet_world 0 ''lobby'' aged)"
        "snd (updateBullet example_config quiet_world 0 ''lobby'' aged)"]
    by (simp add: BULLET_LIFE_def delete_conv')
  have edge: "map_of (bullets (shot 8)) 0 = Some \<lparr>facing = U, bulletCoord = lobby 3 9, duration = 0\<rparr>"
    by (simp add: shot_eq)
  have outside: "snd (updateBullet example_config quiet_world 0 ''lobby'' (shot 8)) =
      ended 0 ''lobby'' [] (shot 8)"
    using updateBullet_tick[OF edge, of example_config quiet_world "''lobby''"
        "fst (updateBullet example_config quiet_world 0 ''lobby'' (shot 8))"
        "snd (updateBullet example_config quiet_world 0 ''lobby'' (shot 8))"]
    by (simp add: BULLET_LIFE_def move_def lobby_def insideMap_def example_config_def
        cell_contains_def)
  have obstacle: "snd (updateBullet example_config walled_world 0 ''lobby'' (shot 4)) =
     ended 0 ''lobby'' [GetCell (CoordObj (lobby 3 6)) LAYER_OBSTACLE] (shot 4)"
    using updateBullet_tick[OF start, of example_config walled_world "''lobby''"
        "fst (updateBullet example_config walled_world 0 ''lobby'' (shot 4))"
        "snd (updateBullet example_config walled_world 0 ''lobby'' (shot 4))"]
    by (simp add: BULLET_LIFE_def move_def lobby_def insideMap_def example_config_def
        cell_contains_def walled_world_def)
  from start moved expired outside obstacle show ?thesis by blast
qed

subsection \<open>The collision scan\<close>

text \<open>The players before the first one on the bullet's cell leave the ticking bullet alone.\<close>

lemma scan_player_miss:
  assumes "map_of (bullets s) tid = Some b'" and "distinct (map fst (bullets s))"
    and "\<not> (mc_x (player_mapCoord (snd e)) = mc_x (bulletCoord b') \<and>
            mc_y (player_mapCoord (snd e)) = mc_y (bulletCoord b'))"
  shows "map_of (bullets (scan_player tid (mc_y (bulletCoord b')) s e)) tid = Some b' \<and>
         distinct (map fst (bullets (scan_player tid (mc_y (bulletCoord b')) s e))) \<and>
         set (bullets (scan_player tid (mc_y (bulletCoord b')) s e)) \<subseteq> set (bullets s)"
proof (cases "find_hit (mc_y (bulletCoord b')) (snd e) (bullets s)")
  case None
  then show ?thesis using assms by (simp add: scan_player_bullets)
next
  case (Some k)
  then obtain b0 where b0: "(k, b0) \<in> set (bullets s)"
      "mc_x (player_mapCoord (snd e)) = mc_x (bulletCoord b0)"
      "mc_y (player_mapCoord (snd e)) = mc_y (bulletCoord b')"
    using find_hit_Some by blast
  have "k \<noteq> tid"
  proof
    assume "k = tid"
    then have "map_of (bullets s) tid = Some b0"
      using b0(1) assms(2) by simp
    then have "b0 = b'" using assms(1) by simp
    then show False using b0 assms(3) by simp
  qed
  moreover have "bullets (scan_player tid (mc_y (bulletCoord b')) s e) = AList.delete k (bullets s)"
    using Some by (simp add: scan_player_bullets)
  ultimately show ?thesis
    using assms(1,2) set_delete_subset[of k "bullets s"] by (simp add: distinct_delete)
qed

lemma scan_players_miss:
  assumes "map_of (bullets s) tid = Some b'" and "distinct (map fst (bullets s))"
    and "\<forall>e \<in> set ps. \<not> (mc_x (player_mapCoord (snd e)) = mc_x (bulletCoord b') \<and>
            mc_y (player_mapCoord (snd e)) = mc_y (bulletCoord b'))"
  shows "map_of (bullets (foldl (scan_player tid (mc_y (bulletCoord b'))) s ps)) tid = Some b' \<and>
         set (bullets (foldl (scan_player tid (mc_y (bulletCoord b'))) s ps)) \<subseteq> set (bullets s)"
  using assms
proof (induction ps arbitrary: s)
  case Nil
  then show ?case by simp
next
  case (Cons e ps)
  let ?s1 = "scan_player tid (mc_y (bulletCoord b')) s e"
  have e: "\<not> (mc_x (player_mapCoord (snd e)) = mc_x (bulletCoord b') \<and>
            mc_y (player_mapCoord (snd e)) = mc_y (bulletCoord b'))"
    using Cons.prems(3) by simp
  have s1: "map_of (bullets ?s1) tid = Some b'" "distinct (map fst (bullets ?s1))"
      "set (bullets ?s1) \<subseteq> set (bullets s)"
    using scan_player_miss[OF Cons.prems(1,2) e] by auto
  have rest: "\<forall>e \<in> set ps. \<not> (mc_x (player_mapCoord (snd e)) = mc_x (bulletCoord b') \<and>
            mc_y (player_mapCoord (snd e)) = mc_y (bulletCoord b'))"
    using Cons.prems(3) by simp
  have "map_of (bullets (foldl (scan_player tid (mc_y (bulletCoord b'))) ?s1 ps)) tid = Some b' \<and>
         set (bullets (foldl (scan_player tid (mc_y (bulletCoord b'))) ?s1 ps)) \<subseteq> set (bullets ?s1)"
    using Cons.IH[OF s1(1) s1(2) rest] .
  then show ?case using s1(3) by auto
qed

text \<open>
  A player on the cell of the ticking bullet hits that bullet when no other bullet of
  the registry has its \<open>x\<close>.
\<close>

lemma find_hit_ticking:
  assumes "map_of (bullets s) tid = Some b'"
    and "\<forall>e \<in> set (bullets s). fst e \<noteq> tid \<longrightarrow> mc_x (bulletCoord (snd e)) \<noteq> mc_x (bulletCoord b')"
    and "player_mapCoord pl = bulletCoord b'"
  shows "find_hit (mc_y (bulletCoord b')) pl (bullets s) = Some tid"
proof (cases "find_hit (mc_y (bulletCoord b')) pl (bullets s)")
  case None
  have "(tid, b') \<in> set (bullets s)" using assms(1) by (rule map_of_SomeD)
  then show ?thesis using find_hit_None[OF None] assms(3) by auto
next
  case (Some k)
  then obtain b0 where "(k, b0) \<in> set (bullets s)"
      "mc_x (player_mapCoord pl) = mc_x (bulletCoord b0)"
    using find_hit_Some by blast
  then have "k = tid" using assms(2,3) by force
  with Some show ?thesis by simp
qed

text \<open>
  Where the scan does relocate the player and remove the bullet. On a tick on which the
  bullet is not ended by its age, the arena or an obstacle, take the first tracked
  player, in the order of the player store, whose \<open>x\<close> and \<open>y\<close> are those of the
  bullet's new position, and let that player's map coordinate be the bullet's new
  position. If no other registered bullet has the \<open>x\<close> of that position, then within
  this tick the player is teleported to \<open>(1, 1)\<close> on that map, the bullet is deleted
  from the registry, and its interval is cleared. The two provisos are what keeps the
  scan away from the inputs of the two lemmas at the end of this subsection.
\<close>

lemma updateBullet_collision:
  assumes "map_of (bullets s) tid = Some b"
    and "distinct (map fst (bullets s))"
    and "duration b + 1 < BULLET_LIFE"
    and "insideMap cfg (bulletCoord (advance b)) = Inr True"
    and "\<not> getCell w (CoordObj (bulletCoord (advance b))) LAYER_OBSTACLE"
    and "getPlayers w = before @ (pid, pl) # after"
    and "player_mapCoord pl = bulletCoord (advance b)"
    and "\<forall>e \<in> set before. \<not> (mc_x (player_mapCoord (snd e)) = mc_x (bulletCoord (advance b)) \<and>
                               mc_y (player_mapCoord (snd e)) = mc_y (bulletCoord (advance b)))"
    and "\<forall>e \<in> set (bullets s). fst e \<noteq> tid \<longrightarrow>
            mc_x (bulletCoord (snd e)) \<noteq> mc_x (bulletCoord (advance b))"
    and "updateBullet cfg w tid mn s = (out, s')"
  shows "Teleport pid ((bulletCoord (advance b))\<lparr>mc_x := 1, mc_y := 1\<rparr>) True \<in> set (emitted s s') \<and>
         map_of (bullets s') tid = None \<and> tid \<notin> fst ` set (bulletIntervals s')"
proof -
  let ?b = "advance b"
  let ?cy = "mc_y (bulletCoord ?b)"
  let ?s2 = "emit (GetCell (CoordObj (bulletCoord ?b)) LAYER_OBSTACLE)
               (s\<lparr>bullets := AList.update tid ?b (bullets s)\<rparr>)"
  let ?s3 = "foldl (scan_player tid ?cy) ?s2 before"
  let ?s4 = "scan_player tid ?cy ?s3 (pid, pl)"
  let ?s5 = "foldl (scan_player tid ?cy) ?s4 after"
  let ?tp = "Teleport pid ((player_mapCoord pl)\<lparr>mc_x := 1, mc_y := 1\<rparr>) True"
  have s': "s' = emit (Broadcast ''update'' mn LAYER_BULLET (bulletCells (bullets ?s5))) ?s5"
    using updateBullet_scan[OF assms(1,3,4,5), of mn] assms(6,10) by (simp add: Let_def)
  have b2: "map_of (bullets ?s2) tid = Some ?b"
    by (simp add: emit_def update_conv')
  have d2: "distinct (map fst (bullets ?s2))"
    using assms(2) by (simp add: emit_def distinct_update)
  have "set (AList.update tid ?b (bullets s)) \<subseteq> insert (tid, ?b) (set (bullets s))"
    by (rule set_update_subset)
  then have c2: "\<forall>e \<in> set (bullets ?s2). fst e \<noteq> tid \<longrightarrow>
            mc_x (bulletCoord (snd e)) \<noteq> mc_x (bulletCoord ?b)"
    using assms(9) by (auto simp: emit_def)
  have s3: "map_of (bullets ?s3) tid = Some ?b" "set (bullets ?s3) \<subseteq> set (bullets ?s2)"
    using scan_players_miss[OF b2 d2 assms(8)] by auto
  have c3: "\<forall>e \<in> set (bullets ?s3). fst e \<noteq> tid \<longrightarrow>
            mc_x (bulletCoord (snd e)) \<noteq> mc_x (bulletCoord ?b)"
    using s3(2) c2 by blast
  have hit: "find_hit ?cy (snd (pid, pl)) (bullets ?s3) = Some tid"
    using find_hit_ticking[OF s3(1) c3 assms(7)] by simp
  obtain t3 where t3: "trace ?s3 = trace ?s2 @ t3"
    using scan_players_trace by blast
  obtain t5 where t5: "trace ?s5 = trace ?s4 @ t5"
    using scan_players_trace by blast
  have tr2: "trace ?s2 = trace s @ [GetCell (CoordObj (bulletCoord ?b)) LAYER_OBSTACLE]"
    by (simp add: emit_def)
  have tr4: "trace ?s4 = trace ?s3 @ [?tp]"
    by (simp add: scan_player_hit[OF hit])
  have tr6: "trace s' = trace ?s5 @ [Broadcast ''update'' mn LAYER_BULLET (bulletCells (bullets ?s5))]"
    unfolding s' by (simp add: emit_def)
  have "trace s' = trace s @ ([GetCell (CoordObj (bulletCoord ?b)) LAYER_OBSTACLE] @ t3 @ [?tp] @ t5 @
          [Broadcast ''update'' mn LAYER_BULLET (bulletCells (bullets ?s5))])"
    using tr2 t3 tr4 t5 tr6 by simp
  then have tele: "?tp \<in> set (emitted s s')" by simp
  have "map_of (bullets ?s4) tid = None" by (simp add: scan_player_hit[OF hit] delete_conv')
  then have "map_of (bullets ?s5) tid = None" by (rule scan_players_gone)
  then have gone: "map_of (bullets s') tid = None" by (simp add: s' emit_def)
  have "tid \<notin> fst ` set (bulletIntervals ?s4)" by (auto simp: scan_player_hit[OF hit])
  then have "tid \<notin> fst ` set (bulletIntervals ?s5)"
    using scan_players_intervals[of tid ?cy ?s4 after] by blast
  then have stopped: "tid \<notin> fst ` set (bulletIntervals s')" by (simp add: s' emit_def)
  from tele gone stopped assms(7) show ?thesis by simp
qed

lemma updateBullet_collision_example:
  "Teleport ''alice'' (lobby 1 1) True
     \<in> set (emitted (shot 4) (snd (updateBullet example_config crowd_world 0 ''lobby'' (shot 4)))) \<and>
   map_of (bullets (snd (updateBullet example_config crowd_world 0 ''lobby'' (shot 4)))) 0 = None \<and>
   0 \<notin> fst ` set (bulletIntervals (snd (updateBullet example_config crowd_world 0 ''lobby'' (shot 4))))"
  using updateBullet_collision[of "shot 4" 0 "\<lparr>facing = U, bulletCoord = lobby 3 5, duration = 0\<rparr>"
      example_config crowd_world "[]" "''alice''" alice "[(''bob'', bob), (''carol'', carol)]" "''lobby''"
      "fst (updateBullet example_config crowd_world 0 ''lobby'' (shot 4))"
      "snd (updateBullet example_config crowd_world 0 ''lobby'' (shot 4))"]
  by (simp add: shot_eq advance_def move_def lobby_def BULLET_LIFE_def insideMap_def
      example_config_def cell_contains_def crowd_world_def alice_def)

text \<open>
  One bullet is consumed by one player. Alice and bob both stand on \<open>(3, 6)\<close>, the
  cell the only bullet moves to; the bullet is not ended by age, arena or obstacle.
  Alice, the first in the store, is teleported and the bullet is deleted with her;
  for bob the registry is empty, and no teleport of bob is made.
\<close>

lemma updateBullet_second_player:
  "map_of (bullets (shot 4)) 0 = Some \<lparr>facing = U, bulletCoord = lobby 3 5, duration = 0\<rparr> \<and>
   (''bob'', bob) \<in> set (getPlayers crowd_world) \<and>
   player_mapCoord bob = bulletCoord (advance \<lparr>facing = U, bulletCoord = lobby 3 5, duration = 0\<rparr>) \<and>
   Teleport ''bob'' (lobby 1 1) True
     \<notin> set (trace (snd (updateBullet example_config crowd_world 0 ''lobby'' (shot 4))))"
  by (simp add: shot_eq updateBullet_def advance_def move_def lobby_def BULLET_LIFE_def insideMap_def
      example_config_def cell_contains_def crowd_world_def alice_def bob_def carol_def emit_def
      scan_player_def teleport_def clearInterval_bullet_def bulletCells_def Let_def)

lemma two_shots_eq:
  "two_shots =
    \<lparr>bullets = [(0, \<lparr>facing = U, bulletCoord = lobby 3 8, duration = 0\<rparr>),
                (1, \<lparr>facing = U, bulletCoord = lobby 3 5, duration = 0\<rparr>)],
     bulletID = 2, fires = [], cooldown = {''dave'', ''carol''}, fireCounter = 0, now = 0,
     timeouts = [(1000, ''carol''), (1000, ''dave'')],
     bulletIntervals = [(0, ''lobby''), (1, ''lobby'')], updateMapInterval = True,
     trace = [Broadcast ''set'' ''lobby'' LAYER_BULLET (BulletCells []),
              Broadcast ''set'' ''lobby'' LAYER_FIRE (BulletCells []),
              Broadcast ''update'' ''lobby'' LAYER_BULLET (BulletCells [lobby 3 8]),
              Broadcast ''update'' ''lobby'' LAYER_BULLET (BulletCells [lobby 3 8, lobby 3 5])]\<rparr>"
  by (simp add: two_shots_def shot_eq c2s_attack_def insideMap_def example_config_def
      cell_contains_def lobby_def dave_def move_def bulletCells_def Let_def)

text \<open>
  C1. On the tick of bullet 1 alice's map coordinate equals the bullet's new position
  \<open>(3, 6)\<close>, and the colliding bullet is not removed. Bullet 0, in the same column at
  \<open>(3, 8)\<close>, comes first in the registry; the scan compares alice's \<open>x\<close> with that of
  the bullet it iterates over and her \<open>y\<close> with that of the ticking bullet. She is
  teleported to \<open>(1, 1)\<close>, bullet 0 is deleted in place of bullet 1, and the interval
  of bullet 1 is cleared while that of bullet 0 keeps running. Bullet 1 stays
  registered on alice's cell with no interval left to end it; the next tick of bullet 0
  finds no bullet under its identifier and fails.
\<close>

theorem updateBullet_same_column:
  "map_of (bullets two_shots) 1 = Some \<lparr>facing = U, bulletCoord = lobby 3 5, duration = 0\<rparr> \<and>
   player_mapCoord alice = bulletCoord (advance \<lparr>facing = U, bulletCoord = lobby 3 5, duration = 0\<rparr>) \<and>
   bullets (snd (updateBullet example_config solo_world 1 ''lobby'' two_shots)) =
     [(1, \<lparr>facing = U, bulletCoord = lobby 3 6, duration = 1\<rparr>)] \<and>
   bulletIntervals (snd (updateBullet example_config solo_world 1 ''lobby'' two_shots)) =
     [(0, ''lobby'')] \<and>
   emitted two_shots (snd (updateBullet example_config solo_world 1 ''lobby'' two_shots)) =
     [GetCell (CoordObj (lobby 3 6)) LAYER_OBSTACLE, Teleport ''alice'' (lobby 1 1) True,
      Broadcast ''update'' ''lobby'' LAYER_BULLET (BulletCells [lobby 3 6])] \<and>
   fst (updateBullet example_config solo_world 0 ''lobby''
          (snd (updateBullet example_config solo_world 1 ''lobby'' two_shots))) = Threw TypeError"
proof -
  have tick: "snd (updateBullet example_config solo_world 1 ''lobby'' two_shots) =
      two_shots\<lparr>bullets := [(1, \<lparr>facing = U, bulletCoord = lobby 3 6, duration = 1\<rparr>)],
        bulletIntervals := [(0, ''lobby'')],
        trace := trace two_shots @
          [GetCell (CoordObj (lobby 3 6)) LAYER_OBSTACLE, Teleport ''alice'' (lobby 1 1) True,
           Broadcast ''update'' ''lobby'' LAYER_BULLET (BulletCells [lobby 3 6])]\<rparr>"
    by (simp add: two_shots_eq updateBullet_def advance_def move_def lobby_def BULLET_LIFE_def
        insideMap_def example_config_def cell_contains_def solo_world_def alice_def emit_def
        scan_player_def teleport_def clearInterval_bullet_def bulletCells_def Let_def)
  have "fst (updateBullet example_config solo_world 0 ''lobby''
          (snd (updateBullet example_config solo_world 1 ''lobby'' two_shots))) = Threw TypeError"
    unfolding tick by (simp add: updateBullet_def)
  moreover have "map_of (bullets two_shots) 1 =
      Some \<lparr>facing = U, bulletCoord = lobby 3 5, duration = 0\<rparr>"
    by (simp add: two_shots_eq)
  moreover have "player_mapCoord alice =
      bulletCoord (advance \<lparr>facing = U, bulletCoord = lobby 3 5, duration = 0\<rparr>)"
    by (simp add: alice_def advance_def move_def lobby_def)
  ultimately show ?thesis unfolding tick by simp
qed

text \<open>
  The scan does not compare map names. Zoe stands on another map at the \<open>x\<close> and \<open>y\<close>
  of the cell the only bullet moves to, and comes before alice in the store: zoe is
  teleported on her own map and the bullet is deleted with her, so alice, whose map
  coordinate is the bullet's new position, is not teleported.
\<close>

lemma updateBullet_other_map:
  "player_mapCoord alice = bulletCoord (advance \<lparr>facing = U, bulletCoord = lobby 3 5, duration = 0\<rparr>) \<and>
   player_mapCoord zoe \<noteq> bulletCoord (advance \<lparr>facing = U, bulletCoord = lobby 3 5, duration = 0\<rparr>) \<and>
   emitted (shot 4) (snd (updateBullet example_config mixed_world 0 ''lobby'' (shot 4))) =
     [GetCell (CoordObj (lobby 3 6)) LAYER_OBSTACLE,
      Teleport ''zoe'' \<lparr>mapName = ''cellar'', mc_x = 1, mc_y = 1\<rparr> True,
      Broadcast ''update'' ''lobby'' LAYER_BULLET (BulletCells [])] \<and>
   bullets (snd (updateBullet example_config mixed_world 0 ''lobby'' (shot 4))) = []"
  by (simp add: shot_eq updateBullet_def advance_def move_def lobby_def BULLET_LIFE_def insideMap_def
      example_config_def cell_contains_def mixed_world_def alice_def zoe_def emit_def
      scan_player_def teleport_def clearInterval_bullet_def bulletCells_def Let_def)

subsection \<open>The arena border\<close>

lemma foldl_edge_cell:
  "foldl (edge_cell k) (fs, n, t) cs =
     (fs @ concat (map (edge_strips k) cs), n + length (filter (cell_consumed k) cs), t + length cs)"
  by (induction cs arbitrary: fs n t) (simp_all add: edge_cell_def)

lemma foldl_edge_cellSets:
  "foldl (\<lambda>acc cs. foldl (edge_cell k) acc (cells cs)) (fs, n, t) css =
     (fs @ concat (map (edge_strips k) (concat (map cells css))),
      n + length (filter (cell_consumed k) (concat (map cells css))),
      t + length (concat (map cells css)))"
  by (induction css arbitrary: fs n t) (simp_all add: foldl_edge_cell)

lemma updateEdge_eq:
  "updateEdge fs css k =
     (length (filter (cell_consumed k) (concat (map cells css))) \<noteq> length (concat (map cells css)),
      fs @ concat (map (edge_strips k) (concat (map cells css))))"
  by (simp add: updateEdge_def foldl_edge_cellSets)

text \<open>
  C4. \<^verbatim>\<open>updateEdge\<close> adds to the fire set, for every rectangle of the cell sets in
  order, the strips of that rectangle and nothing else. For a rectangle \<open>(x, y, w, h)\<close>
  and the counter \<open>k\<close> these are exactly the top strip \<open>(x, y, w, hBound)\<close>, the bottom
  strip \<open>(x, y + h - hBound, w, hBound)\<close>, the left strip \<open>(x, y, wBound, h)\<close> and the
  right strip \<open>(x + w - wBound, y, wBound, h)\<close> with \<open>wBound = min k (w div 2)\<close> and
  \<open>hBound = min k (h div 2)\<close>; twice a bound never exceeds the dimension it is taken from.
\<close>

theorem updateEdge_strips:
  "snd (updateEdge fs css k) = fs @ concat (map (edge_strips k) (concat (map cells css))) \<and>
   edge_strips k \<lparr>cell_x = x, cell_y = y, cell_w = Num w, cell_h = Num h\<rparr> =
     [\<lparr>fire_x = Num x, fire_y = Num y, fire_w = Num w, fire_h = Num (min k (h div 2))\<rparr>,
      \<lparr>fire_x = Num x, fire_y = Num (y + h - min k (h div 2)), fire_w = Num w,
       fire_h = Num (min k (h div 2))\<rparr>,
      \<lparr>fire_x = Num x, fire_y = Num y, fire_w = Num (min k (w div 2)), fire_h = Num h\<rparr>,
      \<lparr>fire_x = Num (x + w - min k (w div 2)), fire_y = Num y, fire_w = Num (min k (w div 2)),
       fire_h = Num h\<rparr>] \<and>
   2 * min k (w div 2) \<le> w \<and> 2 * min k (h div 2) \<le> h"
proof -
  have "2 * min k (w div 2) \<le> w" "2 * min k (h div 2) \<le> h" by linarith+
  then show ?thesis by (simp add: updateEdge_eq edge_strips_def Let_def)
qed

text \<open>
  When every rectangle of the first map is consumed at the new counter, the callback
  clears the interval and makes no call at all, whatever the later maps hold.
\<close>

lemma updateMap_first_map_consumed:
  assumes "arenaOfMaps cfg = (mn, css) # rest"
    and "list_all (cell_consumed (fireCounter s + 1)) (concat (map cells css))"
  shows "updateMapInterval (updateMap cfg w s) = False \<and> trace (updateMap cfg w s) = trace s"
proof -
  have "filter (cell_consumed (fireCounter s + 1)) (concat (map cells css)) = concat (map cells css)"
    using assms(2) by (simp add: list_all_iff)
  then have "fst (updateEdge [] css (fireCounter s + 1)) = False"
    by (simp add: updateEdge_eq)
  then show ?thesis
    using assms(1) by (auto simp: updateMap_def Let_def split: prod.splits)
qed

text \<open>
  C2. With a rectangle \<open>(0, 0, 2, 2)\<close> on the first map and \<open>(0, 0, 10, 10)\<close> on the
  second, the first tick of the \<^verbatim>\<open>updateMap\<close> interval finds the first map fully
  consumed: it clears the interval and returns at once. Nothing is broadcast, neither
  the final fire state of the first map nor anything for the second, whose rectangle is
  not consumed at counter 1; the cleared interval never runs again.
\<close>

theorem updateMap_halts_early:
  "updateMapInterval (updateMap_timer two_maps_config quiet_world (initialize two_maps_config 0)) = False \<and>
   trace (updateMap_timer two_maps_config quiet_world (initialize two_maps_config 0)) =
     trace (initialize two_maps_config 0) \<and>
   fireCounter (updateMap_timer two_maps_config quiet_world (initialize two_maps_config 0)) = 1 \<and>
   cell_consumed 1 \<lparr>cell_x = 0, cell_y = 0, cell_w = Num 2, cell_h = Num 2\<rparr> \<and>
   \<not> cell_consumed 1 \<lparr>cell_x = 0, cell_y = 0, cell_w = Num 10, cell_h = Num 10\<rparr> \<and>
   updateMap_timer two_maps_config quiet_world
       (updateMap_timer two_maps_config quiet_world (initialize two_maps_config 0)) =
     updateMap_timer two_maps_config quiet_world (initialize two_maps_config 0)"
  by (simp add: updateMap_timer_def updateMap_def initialize_def two_maps_config_def updateEdge_def
      edge_cell_def cell_consumed_def edge_strips_def)

subsection \<open>The player-update listener\<close>

text \<open>
  C9. For a message with a string identifier and a coordinate object the handler asks
  the bullet layer first; on a match it teleports the player to \<open>(1, 1)\<close> on the map of
  the coordinate and returns without asking the fire layer. Otherwise it asks the fire
  layer and teleports on a match. These are its only calls, and it leaves the bullet
  registry and the bullet intervals as they were.
\<close>

theorem onPlayerUpdate_wellformed:
  "onPlayerUpdate w \<lparr>msg_mapCoord = CoordObj mc, msg_playerID = IdString pid\<rparr> s =
     (Returned RUndefined,
      if getCell w (CoordObj mc) LAYER_BULLET
      then s\<lparr>trace := trace s @ [GetCell (CoordObj mc) LAYER_BULLET,
                                  Teleport pid (mc\<lparr>mc_x := 1, mc_y := 1\<rparr>) True]\<rparr>
      else if getCell w (CoordObj mc) LAYER_FIRE
      then s\<lparr>trace := trace s @ [GetCell (CoordObj mc) LAYER_BULLET, GetCell (CoordObj mc) LAYER_FIRE,
                                  Teleport pid (mc\<lparr>mc_x := 1, mc_y := 1\<rparr>) True]\<rparr>
      else s\<lparr>trace := trace s @ [GetCell (CoordObj mc) LAYER_BULLET, GetCell (CoordObj mc) LAYER_FIRE]\<rparr>) \<and>
   bullets (snd (onPlayerUpdate w \<lparr>msg_mapCoord = CoordObj mc, msg_playerID = IdString pid\<rparr> s)) =
     bullets s \<and>
   bulletIntervals (snd (onPlayerUpdate w \<lparr>msg_mapCoord = CoordObj mc, msg_playerID = IdString pid\<rparr> s)) =
     bulletIntervals s"
  by (simp add: onPlayerUpdate_def Let_def emit_def teleport_def)

lemma onPlayerUpdate_non_string:
  "onPlayerUpdate w \<lparr>msg_mapCoord = c, msg_playerID = IdOther\<rparr> s =
     (Returned RUndefined, s\<lparr>trace := trace s @ [Warn]\<rparr>)"
  by (simp add: onPlayerUpdate_def emit_def)

text \<open>
  C8. A message with a string identifier and no coordinate is not dropped: the test of
  the source compares the coordinate with the string \<^verbatim>\<open>'undefined'\<close>, which the absent
  value is not. Nothing is logged, the bullet layer and the fire layer are asked about
  the absent coordinate, and where a layer answers with a match the teleport fails with
  a TypeError that ends as an unhandled promise rejection.
\<close>

theorem onPlayerUpdate_absent_coordinate:
  "onPlayerUpdate quiet_world \<lparr>msg_mapCoord = CoordUndefined, msg_playerID = IdString ''alice''\<rparr> s =
     (Returned RUndefined,
      s\<lparr>trace := trace s @ [GetCell CoordUndefined LAYER_BULLET, GetCell CoordUndefined LAYER_FIRE]\<rparr>) \<and>
   onPlayerUpdate hot_world \<lparr>msg_mapCoord = CoordUndefined, msg_playerID = IdString ''alice''\<rparr> s =
     (Threw TypeError, s\<lparr>trace := trace s @ [GetCell CoordUndefined LAYER_BULLET]\<rparr>) \<and>
   playerUpdateListener hot_world \<lparr>msg_mapCoord = CoordUndefined, msg_playerID = IdString ''alice''\<rparr> s =
     s\<lparr>trace := trace s @ [GetCell CoordUndefined LAYER_BULLET, UnhandledRejection TypeError]\<rparr>"
  by (simp add: onPlayerUpdate_def playerUpdateListener_def quiet_world_def hot_world_def emit_def
      Let_def)

end
